theory Spec2Isabelle
  imports Main
begin

section \<open>The notebook as a program\<close>

text \<open>
  The repository is one Jupyter notebook, \<^verbatim>\<open>SQL_Subqueries.ipynb\<close>: 36 cells, nine of
  them code cells (cells 3, 5, 7, 9, 11, 13, 15, 17 and 19, counted from 0). The code
  cells use a small fragment of Python: \<^verbatim>\<open>import\<close>, assignment of an expression to a
  name, and expression statements built from string literals, names, attribute access
  and calls. The statement type also has \<^verbatim>\<open>try: ... except: ...\<close>, which no cell uses, so
  that "no cell catches an error" is a property of the cells and not of the type.
  Markdown cells have no runtime behaviour and carry no payload here; the comment line
  that opens cell 19 is left out.
\<close>

datatype expr =
    Str string
  | Name string
  | Attr expr string
  | Call expr "expr list"

datatype stmt =
    Import string string
  | Assign string expr
  | ExprStmt expr
  | Try "stmt list" "stmt list"

datatype cell = Markdown | Code "stmt list"

subsection \<open>The literal query strings\<close>

text \<open>
  Each query is the text between the triple quotes of its cell, line by line, with the
  line breaks and the trailing blanks of the source. \<open>dq\<close> is the double quote.
\<close>

definition dq :: string where
  "dq = [CHR 0x22]"

definition query_cell7 :: string where
  "query_cell7 = concat
    [''\<newline>'',
     ''    SELECT \<newline>'',
     ''        source AS depart_airport\<newline>'',
     ''        , COUNT() AS number_of_departures\<newline>'',
     ''    FROM\<newline>'',
     ''        routes\<newline>'',
     ''    GROUP BY\<newline>'',
     ''        source\<newline>'']"

definition query_cell9 :: string where
  "query_cell9 = concat
    [''\<newline>'',
     ''    SELECT AVG(number_of_departures)\<newline>'',
     ''    FROM \<newline>'',
     ''        (SELECT \<newline>'',
     ''            source AS depart_airport\<newline>'',
     ''            , COUNT() AS number_of_departures\<newline>'',
     ''        FROM\<newline>'',
     ''            routes\<newline>'',
     ''        GROUP BY\<newline>'',
     ''            source)\<newline>'']"

definition query_cell11 :: string where
  "query_cell11 = concat
    [''\<newline>'',
     ''    SELECT \<newline>'',
     ''        country,  \<newline>'',
     ''        COUNT() AS number_of_airports_in_country\<newline>'',
     ''    FROM\<newline>'',
     ''        airports\<newline>'',
     ''    GROUP BY\<newline>'',
     ''        country\<newline>'',
     ''    ORDER BY\<newline>'',
     ''        number_of_airports_in_country DESC\<newline>'',
     ''    LIMIT 5\<newline>'']"

definition query_cell13 :: string where
  "query_cell13 = concat
    [''\<newline>'',
     ''    SELECT \<newline>'',
     ''        rt.source AS depart_airport, \<newline>'',
     ''        rt.dest AS destination_airport, \<newline>'',
     ''        ap.country AS depart_country\<newline>'',
     ''    FROM\<newline>'',
     ''        routes AS rt\<newline>'',
     ''    LEFT JOIN airports AS ap\<newline>'',
     ''        ON rt.source_id = ap.id\<newline>'',
     ''    WHERE ap.country IN ('' @ dq @ ''United States'' @ dq @ '', '' @ dq @ ''Canada'' @ dq @ '', '' @ dq @ ''Germany'' @ dq @ '', '' @ dq @ ''Australia'' @ dq @ '', '' @ dq @ ''Russia'' @ dq @ '')\<newline>'',
     ''    ORDER BY depart_country\<newline>'']"

definition query_cell15 :: string where
  "query_cell15 = concat
    [''\<newline>'',
     ''    SELECT \<newline>'',
     ''        rt.source AS depart_airport, \<newline>'',
     ''        rt.dest AS destination_airport, \<newline>'',
     ''        ap.country AS depart_country\<newline>'',
     ''    FROM\<newline>'',
     ''        routes AS rt\<newline>'',
     ''    LEFT JOIN airports AS ap\<newline>'',
     ''        ON rt.source_id = ap.id\<newline>'',
     ''    WHERE ap.country IN \<newline>'',
     ''    -- Subquery to get the 5 countries with the most airports\<newline>'',
     ''    \<newline>'',
     ''        (SELECT country \<newline>'',
     ''         FROM airports\<newline>'',
     ''         GROUP BY country\<newline>'',
     ''         ORDER BY COUNT() DESC\<newline>'',
     ''         LIMIT 5)\<newline>'',
     ''    \<newline>'',
     ''    ORDER BY depart_country\<newline>'']"

definition query_cell17 :: string where
  "query_cell17 = concat
    [''\<newline>'',
     ''\<newline>'',
     ''    WITH top_5_countries AS \<newline>'',
     ''        (SELECT country \<newline>'',
     ''         FROM airports\<newline>'',
     ''         GROUP BY country\<newline>'',
     ''         ORDER BY COUNT() DESC\<newline>'',
     ''         LIMIT 5) \<newline>'',
     ''    \<newline>'',
     ''    SELECT \<newline>'',
     ''        rt.source AS depart_airport, \<newline>'',
     ''        rt.dest AS destination_airport, \<newline>'',
     ''        ap.country AS depart_country\<newline>'',
     ''    FROM\<newline>'',
     ''        routes AS rt\<newline>'',
     ''    LEFT JOIN airports AS ap\<newline>'',
     ''        ON rt.source_id = ap.id\<newline>'',
     ''    WHERE ap.country IN top_5_countries\<newline>'',
     ''    \<newline>'',
     ''    ORDER BY depart_country\<newline>'']"

definition query_cell19 :: string where
  "query_cell19 = concat
    [''\<newline>'',
     ''        WITH top_3_airports AS\<newline>'',
     ''            (SELECT source_id\<newline>'',
     ''            FROM routes\<newline>'',
     ''            GROUP BY source_id\<newline>'',
     ''            ORDER BY COUNT() DESC\<newline>'',
     ''            LIMIT 3)\<newline>'',
     ''        \<newline>'',
     ''        SELECT DISTINCT a.name\<newline>'',
     ''        FROM airlines AS a\<newline>'',
     ''        JOIN routes AS r\<newline>'',
     ''            ON a.id = r.airline_id\<newline>'',
     ''        WHERE r.source_id IN top_3_airports OR r.dest_id IN top_3_airports\<newline>'',
     ''        ;\<newline>'',
     ''        '']"

subsection \<open>The cells\<close>

definition read_sql_call :: "expr \<Rightarrow> expr" where
  "read_sql_call q = Call (Attr (Name ''pd'') ''read_sql'') [q, Name ''conn'']"

definition cell3 :: cell where
  "cell3 = Code [Import ''pandas'' ''pd'', Import ''sqlite3'' ''sqlite3'']"

definition cell5 :: cell where
  "cell5 = Code [Assign ''conn'' (Call (Attr (Name ''sqlite3'') ''connect'') [Str ''flights.db''])]"

definition cell7 :: cell where
  "cell7 = Code [ExprStmt (read_sql_call (Str query_cell7))]"

definition cell9 :: cell where
  "cell9 = Code [ExprStmt (read_sql_call (Str query_cell9))]"

definition cell11 :: cell where
  "cell11 = Code [ExprStmt (read_sql_call (Str query_cell11))]"

definition cell13 :: cell where
  "cell13 = Code [ExprStmt (read_sql_call (Str query_cell13))]"

definition cell15 :: cell where
  "cell15 = Code [ExprStmt (read_sql_call (Str query_cell15))]"

definition cell17 :: cell where
  "cell17 = Code [ExprStmt (read_sql_call (Str query_cell17))]"

definition cell19 :: cell where
  "cell19 = Code [Assign ''query'' (Str query_cell19),
                  ExprStmt (read_sql_call (Name ''query''))]"

definition notebook :: "cell list" where
  "notebook =
    [Markdown, Markdown, Markdown, cell3, Markdown, cell5, Markdown, cell7, Markdown,
     cell9, Markdown, cell11, Markdown, cell13, Markdown, cell15, Markdown, cell17,
     Markdown, cell19, Markdown, Markdown, Markdown, Markdown, Markdown, Markdown, Markdown,
     Markdown, Markdown, Markdown, Markdown, Markdown, Markdown, Markdown, Markdown,
     Markdown]"

section \<open>Running cells\<close>

text \<open>
  The kernel's state: the files the engine reads (a database per path), the connection
  table (path and whether the handle is still open, indexed by handle), the global
  namespace shared by all cells, what each executed code cell displayed or raised, and
  the calls made into the database library, in order.

  The database engine is not part of the repository. It is a parameter \<open>eng\<close> of every
  function below: given the database and the query text it either raises (\<open>Inl\<close>, with
  the engine's message) or returns the database after the statement and the result
  table. Nothing is assumed about it unless a theorem says so.
\<close>

datatype func = Connect | ReadSql | Close nat

datatype 'tbl val =
    VNone
  | VStr string
  | VModule string
  | VFun func
  | VConn nat
  | VFrame 'tbl

datatype pyerr =
    NameError string
  | AttributeError string
  | TypeError
  | ProgrammingError
  | EngineError string
  | DatabaseError string

datatype event =
    EvConnect string nat
  | EvQuery nat string "string option"

record ('db, 'tbl) world =
  fs :: "string \<Rightarrow> 'db"
  conns :: "(string \<times> bool) list"
  env :: "string \<rightharpoonup> 'tbl val"
  out :: "(pyerr + 'tbl val) list"
  log :: "event list"

type_synonym ('db, 'tbl) engine = "'db \<Rightarrow> string \<Rightarrow> string + ('db \<times> 'tbl)"

definition get_attr :: "'tbl val \<Rightarrow> string \<Rightarrow> pyerr + 'tbl val" where
  "get_attr v a =
    (case v of
       VModule m \<Rightarrow>
         if m = ''sqlite3'' \<and> a = ''connect'' then Inr (VFun Connect)
         else if m = ''pandas'' \<and> a = ''read_sql'' then Inr (VFun ReadSql)
         else Inl (AttributeError a)
     | VConn h \<Rightarrow> if a = ''close'' then Inr (VFun (Close h)) else Inl (AttributeError a)
     | _ \<Rightarrow> Inl (AttributeError a))"

text \<open>
  \<^verbatim>\<open>sqlite3.connect(path)\<close> opens a new handle on the file and \<^verbatim>\<open>con.close()\<close> closes a
  handle. \<^verbatim>\<open>pd.read_sql(q, con)\<close> hands \<open>q\<close> to the engine on the file behind an open
  handle and returns the table. When the engine raises, pandas catches the engine's
  exception, rolls the connection back (the database is as it was before the
  statement) and raises its own \<^verbatim>\<open>DatabaseError\<close> in its place, with the message
  \<^verbatim>\<open>Execution failed on sql '<q>': <the engine's message>\<close>. \<open>EngineError\<close> is the engine's
  exception itself; nothing in the library model raises it to the cell.
\<close>

definition failed_on :: "string \<Rightarrow> string \<Rightarrow> string" where
  "failed_on q e = ''Execution failed on sql '' @ [CHR 0x27] @ q @ [CHR 0x27] @ '': '' @ e"

definition do_connect ::
  "string \<Rightarrow> ('db, 'tbl) world \<Rightarrow> (pyerr + 'tbl val) \<times> ('db, 'tbl) world" where
  "do_connect p w =
     (Inr (VConn (length (conns w))),
      w\<lparr>conns := conns w @ [(p, True)], log := log w @ [EvConnect p (length (conns w))]\<rparr>)"

definition do_read_sql ::
  "('db, 'tbl) engine \<Rightarrow> string \<Rightarrow> nat \<Rightarrow> ('db, 'tbl) world \<Rightarrow>
     (pyerr + 'tbl val) \<times> ('db, 'tbl) world" where
  "do_read_sql eng q h w =
     (if h < length (conns w) \<and> snd (conns w ! h) then
        (case eng (fs w (fst (conns w ! h))) q of
           Inl e \<Rightarrow>
             (Inl (DatabaseError (failed_on q e)), w\<lparr>log := log w @ [EvQuery h q (Some e)]\<rparr>)
         | Inr (db', t) \<Rightarrow>
             (Inr (VFrame t),
              w\<lparr>fs := (fs w)(fst (conns w ! h) := db'), log := log w @ [EvQuery h q None]\<rparr>))
      else (Inl ProgrammingError, w))"

definition do_close :: "nat \<Rightarrow> ('db, 'tbl) world \<Rightarrow> (pyerr + 'tbl val) \<times> ('db, 'tbl) world" where
  "do_close h w =
     (if h < length (conns w)
      then (Inr VNone, w\<lparr>conns := (conns w)[h := (fst (conns w ! h), False)]\<rparr>)
      else (Inl ProgrammingError, w))"

fun apply_fun ::
  "('db, 'tbl) engine \<Rightarrow> func \<Rightarrow> 'tbl val list \<Rightarrow> ('db, 'tbl) world \<Rightarrow>
     (pyerr + 'tbl val) \<times> ('db, 'tbl) world" where
  "apply_fun eng Connect [VStr p] w = do_connect p w"
| "apply_fun eng ReadSql [VStr q, VConn h] w = do_read_sql eng q h w"
| "apply_fun eng (Close h) [] w = do_close h w"
| "apply_fun eng f vs w = (Inl TypeError, w)"

fun eval_expr ::
  "('db, 'tbl) engine \<Rightarrow> expr \<Rightarrow> ('db, 'tbl) world \<Rightarrow> (pyerr + 'tbl val) \<times> ('db, 'tbl) world"
and eval_args ::
  "('db, 'tbl) engine \<Rightarrow> expr list \<Rightarrow> ('db, 'tbl) world \<Rightarrow>
     (pyerr + 'tbl val list) \<times> ('db, 'tbl) world" where
  "eval_expr eng (Str s) w = (Inr (VStr s), w)"
| "eval_expr eng (Name x) w =
     (case env w x of None \<Rightarrow> (Inl (NameError x), w) | Some v \<Rightarrow> (Inr v, w))"
| "eval_expr eng (Attr e a) w =
     (case eval_expr eng e w of
        (Inl err, w1) \<Rightarrow> (Inl err, w1)
      | (Inr v, w1) \<Rightarrow> (get_attr v a, w1))"
| "eval_expr eng (Call f args) w =
     (case eval_expr eng f w of
        (Inl err, w1) \<Rightarrow> (Inl err, w1)
      | (Inr fv, w1) \<Rightarrow>
          (case eval_args eng args w1 of
             (Inl err, w2) \<Rightarrow> (Inl err, w2)
           | (Inr vs, w2) \<Rightarrow>
               (case fv of
                  VFun fn \<Rightarrow> apply_fun eng fn vs w2
                | _ \<Rightarrow> (Inl TypeError, w2))))"
| "eval_args eng [] w = (Inr [], w)"
| "eval_args eng (e # es) w =
     (case eval_expr eng e w of
        (Inl err, w1) \<Rightarrow> (Inl err, w1)
      | (Inr v, w1) \<Rightarrow>
          (case eval_args eng es w1 of
             (Inl err, w2) \<Rightarrow> (Inl err, w2)
           | (Inr vs, w2) \<Rightarrow> (Inr (v # vs), w2)))"

text \<open>
  A statement yields the value an expression statement computed (\<open>None\<close> for the
  others). A raised error ends the cell, unless a \<^verbatim>\<open>try\<close> around it runs its handler
  instead; what the statements before the error did stays.
\<close>

fun exec_stmt ::
  "('db, 'tbl) engine \<Rightarrow> stmt \<Rightarrow> ('db, 'tbl) world \<Rightarrow>
     (pyerr + 'tbl val option) \<times> ('db, 'tbl) world"
and exec_stmts ::
  "('db, 'tbl) engine \<Rightarrow> stmt list \<Rightarrow> 'tbl val option \<Rightarrow> ('db, 'tbl) world \<Rightarrow>
     (pyerr + 'tbl val option) \<times> ('db, 'tbl) world" where
  "exec_stmt eng (Import m a) w = (Inr None, w\<lparr>env := (env w)(a \<mapsto> VModule m)\<rparr>)"
| "exec_stmt eng (Assign x e) w =
     (case eval_expr eng e w of
        (Inl err, w1) \<Rightarrow> (Inl err, w1)
      | (Inr v, w1) \<Rightarrow> (Inr None, w1\<lparr>env := (env w1)(x \<mapsto> v)\<rparr>))"
| "exec_stmt eng (ExprStmt e) w =
     (case eval_expr eng e w of
        (Inl err, w1) \<Rightarrow> (Inl err, w1)
      | (Inr v, w1) \<Rightarrow> (Inr (Some v), w1))"
| "exec_stmt eng (Try body handler) w =
     (case exec_stmts eng body None w of
        (Inl err, w1) \<Rightarrow>
          (case exec_stmts eng handler None w1 of
             (Inl err2, w2) \<Rightarrow> (Inl err2, w2)
           | (Inr v, w2) \<Rightarrow> (Inr None, w2))
      | (Inr v, w1) \<Rightarrow> (Inr None, w1))"
| "exec_stmts eng [] shown w = (Inr shown, w)"
| "exec_stmts eng (s # ss) shown w =
     (case exec_stmt eng s w of
        (Inl err, w1) \<Rightarrow> (Inl err, w1)
      | (Inr v, w1) \<Rightarrow> exec_stmts eng ss v w1)"

text \<open>
  A code cell shows the error it raised, or the value of its last statement when that
  is an expression with a value other than \<^verbatim>\<open>None\<close>. The first component is the cell's
  outcome as the operator sees it.
\<close>

fun exec_cell ::
  "('db, 'tbl) engine \<Rightarrow> cell \<Rightarrow> ('db, 'tbl) world \<Rightarrow>
     (pyerr + 'tbl val option) \<times> ('db, 'tbl) world" where
  "exec_cell eng Markdown w = (Inr None, w)"
| "exec_cell eng (Code ss) w =
     (case exec_stmts eng ss None w of
        (Inl err, w1) \<Rightarrow> (Inl err, w1\<lparr>out := out w1 @ [Inl err]\<rparr>)
      | (Inr None, w1) \<Rightarrow> (Inr None, w1)
      | (Inr (Some VNone), w1) \<Rightarrow> (Inr None, w1)
      | (Inr (Some v), w1) \<Rightarrow> (Inr (Some v), w1\<lparr>out := out w1 @ [Inr v]\<rparr>))"

text \<open>
  The operator runs the cells one at a time, in order; an error ends its cell only, and
  the kernel keeps its state for the next one.
\<close>

fun run :: "('db, 'tbl) engine \<Rightarrow> cell list \<Rightarrow> ('db, 'tbl) world \<Rightarrow> ('db, 'tbl) world" where
  "run eng [] w = w"
| "run eng (c # cs) w = run eng cs (snd (exec_cell eng c w))"

definition fresh :: "(string \<Rightarrow> 'db) \<Rightarrow> ('db, 'tbl) world" where
  "fresh files = \<lparr>fs = files, conns = [], env = Map.empty, out = [], log = []\<rparr>"

section \<open>Reading the query texts\<close>

text \<open>
  A lexer for SQL text as the engine reads it: words (keywords, names and numbers),
  quoted text as one token (single quotes, double quotes, backticks and square
  brackets), punctuation, and comments dropped: \<^verbatim>\<open>--\<close> up to the end of its line and
  \<^verbatim>\<open>/* ... */\<close>, which does not nest and runs to the end of the text when it is not
  closed. A doubled quote inside quoted text ends one token and starts the next, which
  covers the same characters. Tokens are collected in reverse and turned round at the
  end.
\<close>

datatype tok = Word string | Quoted string | Punct char

datatype mode =
    Plain
  | InWord string
  | InQuote char string
  | InBracket string
  | Dash
  | Comment
  | Slash
  | Block
  | BlockStar

definition is_ident :: "char \<Rightarrow> bool" where
  "is_ident c \<longleftrightarrow>
     c \<in> set ''abcdefghijklmnopqrstuvwxyzABCDEFGHIJKLMNOPQRSTUVWXYZ0123456789_''"

definition is_space :: "char \<Rightarrow> bool" where
  "is_space c \<longleftrightarrow> c \<in> set [CHR '' '', CHR ''\<newline>'', CHR 0x09, CHR 0x0C, CHR 0x0D]"

definition lex_plain :: "tok list \<Rightarrow> char \<Rightarrow> mode \<times> tok list" where
  "lex_plain acc c =
     (if is_ident c then (InWord [c], acc)
      else if c = CHR 0x22 \<or> c = CHR 0x27 \<or> c = CHR 0x60 then (InQuote c [], acc)
      else if c = CHR ''['' then (InBracket [], acc)
      else if c = CHR ''-'' then (Dash, acc)
      else if c = CHR ''/'' then (Slash, acc)
      else if is_space c then (Plain, acc)
      else (Plain, Punct c # acc))"

fun lex_step :: "mode \<times> tok list \<Rightarrow> char \<Rightarrow> mode \<times> tok list" where
  "lex_step (Plain, acc) c = lex_plain acc c"
| "lex_step (InWord w, acc) c =
     (if is_ident c then (InWord (w @ [c]), acc) else lex_plain (Word w # acc) c)"
| "lex_step (InQuote d s, acc) c =
     (if c = d then (Plain, Quoted s # acc) else (InQuote d (s @ [c]), acc))"
| "lex_step (Dash, acc) c =
     (if c = CHR ''-'' then (Comment, acc) else lex_plain (Punct CHR ''-'' # acc) c)"
| "lex_step (Comment, acc) c =
     (if c = CHR ''\<newline>'' then (Plain, acc) else (Comment, acc))"
| "lex_step (InBracket s, acc) c =
     (if c = CHR '']'' then (Plain, Quoted s # acc) else (InBracket (s @ [c]), acc))"
| "lex_step (Slash, acc) c =
     (if c = CHR ''*'' then (Block, acc) else lex_plain (Punct CHR ''/'' # acc) c)"
| "lex_step (Block, acc) c =
     (if c = CHR ''*'' then (BlockStar, acc) else (Block, acc))"
| "lex_step (BlockStar, acc) c =
     (if c = CHR ''/'' then (Plain, acc)
      else if c = CHR ''*'' then (BlockStar, acc)
      else (Block, acc))"

fun lex_finish :: "mode \<times> tok list \<Rightarrow> tok list" where
  "lex_finish (InWord w, acc) = rev (Word w # acc)"
| "lex_finish (Dash, acc) = rev (Punct CHR ''-'' # acc)"
| "lex_finish (Slash, acc) = rev (Punct CHR ''/'' # acc)"
| "lex_finish (m, acc) = rev acc"

definition lex_sql :: "string \<Rightarrow> tok list" where
  "lex_sql s = lex_finish (foldl lex_step (Plain, []) s)"

text \<open>SQL keywords and names are compared without regard to case.\<close>

definition upper_char :: "char \<Rightarrow> char" where
  "upper_char c =
     (case map_of (zip ''abcdefghijklmnopqrstuvwxyz'' ''ABCDEFGHIJKLMNOPQRSTUVWXYZ'') c of
        None \<Rightarrow> c | Some u \<Rightarrow> u)"

definition upper :: "string \<Rightarrow> string" where
  "upper s = map upper_char s"

fun words_of :: "tok list \<Rightarrow> string list" where
  "words_of [] = []"
| "words_of (Word w # ts) = upper w # words_of ts"
| "words_of (t # ts) = words_of ts"

text \<open>
  The statements that change a database or its schema, or the connection's
  transaction and settings, by their keyword. A read-only text starts with
  \<^verbatim>\<open>SELECT\<close> or \<^verbatim>\<open>WITH\<close> and has none of these keywords anywhere outside quoted
  text and comments (a \<^verbatim>\<open>WITH\<close> can also head an \<^verbatim>\<open>INSERT\<close>, \<^verbatim>\<open>UPDATE\<close> or
  \<^verbatim>\<open>DELETE\<close>). Such a text is one \<^verbatim>\<open>SELECT\<close> statement, or no statement the engine runs.
\<close>

definition write_keywords :: "string list" where
  "write_keywords =
     [''INSERT'', ''UPDATE'', ''DELETE'', ''REPLACE'', ''CREATE'', ''DROP'', ''ALTER'',
      ''ATTACH'', ''DETACH'', ''PRAGMA'', ''VACUUM'', ''REINDEX'', ''ANALYZE'',
      ''BEGIN'', ''COMMIT'', ''ROLLBACK'', ''SAVEPOINT'', ''RELEASE'']"

definition read_only_sql :: "string \<Rightarrow> bool" where
  "read_only_sql q =
     (case words_of (lex_sql q) of
        [] \<Rightarrow> False
      | w # ws \<Rightarrow>
          (w = ''SELECT'' \<or> w = ''WITH'') \<and> list_all (\<lambda>k. k \<notin> set (w # ws)) write_keywords)"

text \<open>
  Common table expressions. After \<^verbatim>\<open>WITH name AS (\<close> the body runs to the matching
  parenthesis; what follows is the query the expression is defined for. \<open>cte_refs\<close>
  gives the name and how often that query names it. The \<^verbatim>\<open>WITH\<close> clauses of the
  notebook define one expression each.
\<close>

fun skip_group :: "nat \<Rightarrow> tok list \<Rightarrow> tok list" where
  "skip_group d [] = []"
| "skip_group d (Punct c # ts) =
     (if c = CHR ''('' then skip_group (Suc d) ts
      else if c = CHR '')'' then (if d \<le> 1 then ts else skip_group (d - 1) ts)
      else skip_group d ts)"
| "skip_group d (t # ts) = skip_group d ts"

fun cte_refs :: "tok list \<Rightarrow> (string \<times> nat) list" where
  "cte_refs (Word w # Word n # Word a # Punct p # ts) =
     (if upper w = ''WITH'' \<and> upper a = ''AS'' \<and> p = CHR ''(''
      then [(n, count_list (words_of (skip_group 1 ts)) (upper n))]
      else [])"
| "cte_refs ts = []"

section \<open>Reading the cells\<close>

text \<open>The names an expression reads, and the names a statement binds and reads.\<close>

fun names_used :: "expr \<Rightarrow> string list" where
  "names_used (Str s) = []"
| "names_used (Name x) = [x]"
| "names_used (Attr e a) = names_used e"
| "names_used (Call f args) = names_used f @ concat (map names_used args)"

fun stmt_binds :: "stmt \<Rightarrow> string list"
and stmts_binds :: "stmt list \<Rightarrow> string list" where
  "stmt_binds (Import m a) = [a]"
| "stmt_binds (Assign x e) = [x]"
| "stmt_binds (ExprStmt e) = []"
| "stmt_binds (Try body handler) = stmts_binds body @ stmts_binds handler"
| "stmts_binds [] = []"
| "stmts_binds (s # ss) = stmt_binds s @ stmts_binds ss"

fun stmt_expr :: "stmt \<Rightarrow> expr list"
and stmts_expr :: "stmt list \<Rightarrow> expr list" where
  "stmt_expr (Import m a) = []"
| "stmt_expr (Assign x e) = [e]"
| "stmt_expr (ExprStmt e) = [e]"
| "stmt_expr (Try body handler) = stmts_expr body @ stmts_expr handler"
| "stmts_expr [] = []"
| "stmts_expr (s # ss) = stmt_expr s @ stmts_expr ss"

definition stmt_uses :: "stmt \<Rightarrow> string list" where
  "stmt_uses s = concat (map names_used (stmt_expr s))"


text \<open>
  Data flow between cells. \<open>bound\<close> maps a name to the cell that bound it last (the
  first entry for the name counts). A statement of cell \<open>i\<close> that reads a name bound by
  an earlier cell \<open>j\<close> gives the flow \<open>(name, j, i)\<close>; a name the cell itself has bound
  before the read gives none.
\<close>

fun stmt_flows :: "nat \<Rightarrow> (string \<times> nat) list \<Rightarrow> string list \<Rightarrow> (string \<times> nat \<times> nat) list" where
  "stmt_flows i bound [] = []"
| "stmt_flows i bound (x # xs) =
     (case map_of bound x of
        None \<Rightarrow> stmt_flows i bound xs
      | Some j \<Rightarrow> (if j < i then (x, j, i) # stmt_flows i bound xs else stmt_flows i bound xs))"

fun cell_flows ::
  "nat \<Rightarrow> (string \<times> nat) list \<Rightarrow> stmt list \<Rightarrow> (string \<times> nat \<times> nat) list \<times> (string \<times> nat) list" where
  "cell_flows i bound [] = ([], bound)"
| "cell_flows i bound (s # ss) =
     (case cell_flows i (map (\<lambda>x. (x, i)) (stmt_binds s) @ bound) ss of
        (fl, bound') \<Rightarrow> (stmt_flows i bound (stmt_uses s) @ fl, bound'))"

fun flows :: "nat \<Rightarrow> (string \<times> nat) list \<Rightarrow> cell list \<Rightarrow> (string \<times> nat \<times> nat) list" where
  "flows i bound [] = []"
| "flows i bound (Markdown # cs) = flows (Suc i) bound cs"
| "flows i bound (Code ss # cs) =
     (case cell_flows i bound ss of (fl, bound') \<Rightarrow> fl @ flows (Suc i) bound' cs)"

fun bindings :: "nat \<Rightarrow> cell list \<Rightarrow> (string \<times> nat) list" where
  "bindings i [] = []"
| "bindings i (Markdown # cs) = bindings (Suc i) cs"
| "bindings i (Code ss # cs) = map (\<lambda>x. (x, i)) (stmts_binds ss) @ bindings (Suc i) cs"

text \<open>The calls of a method, by its name, with their arguments.\<close>

fun calls_of :: "string \<Rightarrow> expr \<Rightarrow> expr list list"
and calls_of_args :: "string \<Rightarrow> expr list \<Rightarrow> expr list list" where
  "calls_of m (Str s) = []"
| "calls_of m (Name x) = []"
| "calls_of m (Attr e a) = calls_of m e"
| "calls_of m (Call f args) =
     (case f of
        Attr e a \<Rightarrow> (if a = m then [args] else []) @ calls_of m e
      | _ \<Rightarrow> calls_of m f) @ calls_of_args m args"
| "calls_of_args m [] = []"
| "calls_of_args m (e # es) = calls_of m e @ calls_of_args m es"

fun cell_stmts :: "cell \<Rightarrow> stmt list" where
  "cell_stmts Markdown = []"
| "cell_stmts (Code ss) = ss"

definition notebook_calls :: "string \<Rightarrow> cell list \<Rightarrow> expr list list" where
  "notebook_calls m cs = concat (map (calls_of m) (stmts_expr (concat (map cell_stmts cs))))"

text \<open>What the log says: the files opened, and the handle and text of each query.\<close>

fun connects_of :: "event list \<Rightarrow> (string \<times> nat) list" where
  "connects_of [] = []"
| "connects_of (EvConnect p h # es) = (p, h) # connects_of es"
| "connects_of (e # es) = connects_of es"

fun queries_of :: "event list \<Rightarrow> (nat \<times> string) list" where
  "queries_of [] = []"
| "queries_of (EvQuery h q r # es) = (h, q) # queries_of es"
| "queries_of (e # es) = queries_of es"

text \<open>
  The literal a query argument stands for: a string literal itself, or a name whose
  last binding before the call, in the same cell, is the assignment of a string
  literal. Anything else (a call, an attribute, a name bound elsewhere or to something
  computed) stands for no literal.
\<close>

fun binding_of :: "string \<Rightarrow> stmt list \<Rightarrow> stmt option" where
  "binding_of x [] = None"
| "binding_of x (s # ss) =
     (case binding_of x ss of
        Some b \<Rightarrow> Some b
      | None \<Rightarrow> (if x \<in> set (stmt_binds s) then Some s else None))"

fun query_literal :: "stmt list \<Rightarrow> expr \<Rightarrow> string option" where
  "query_literal before (Str s) = Some s"
| "query_literal before (Name x) =
     (case binding_of x before of Some (Assign y (Str s)) \<Rightarrow> Some s | _ \<Rightarrow> None)"
| "query_literal before e = None"

fun first_arg_literal :: "stmt list \<Rightarrow> expr list \<Rightarrow> string option" where
  "first_arg_literal before [] = None"
| "first_arg_literal before (q # args) = query_literal before q"

fun cell_queries :: "stmt list \<Rightarrow> stmt list \<Rightarrow> string option list" where
  "cell_queries before [] = []"
| "cell_queries before (s # ss) =
     map (first_arg_literal before) (concat (map (calls_of ''read_sql'') (stmt_expr s)))
       @ cell_queries (before @ [s]) ss"

definition submitted_literals :: "cell list \<Rightarrow> string option list" where
  "submitted_literals cs = concat (map (\<lambda>c. cell_queries [] (cell_stmts c)) cs)"

text \<open>
  A statement only shows the table a query returned when the call of \<^verbatim>\<open>read_sql\<close> is
  the whole of an expression statement: the result is then bound to no name and passed
  to no other call.
\<close>

fun only_shown :: "stmt \<Rightarrow> bool" where
  "only_shown (Import m a) = True"
| "only_shown (Assign x e) = (calls_of ''read_sql'' e = [])"
| "only_shown (ExprStmt (Call f args)) =
     (calls_of ''read_sql'' f = [] \<and> calls_of_args ''read_sql'' args = [])"
| "only_shown (ExprStmt e) = (calls_of ''read_sql'' e = [])"
| "only_shown (Try body handler) = (stmts_expr body @ stmts_expr handler = [])"

section \<open>The notebook's run\<close>

definition notebook_queries :: "string list" where
  "notebook_queries =
     [query_cell7, query_cell9, query_cell11, query_cell13, query_cell15, query_cell17,
      query_cell19]"

text \<open>The cells before the first query (imports and connect), and the cells after them.\<close>

definition setup_cells :: "cell list" where
  "setup_cells = take 6 notebook"

definition query_cells :: "cell list" where
  "query_cells = drop 6 notebook"

text \<open>
  What the engine's answer to one query looks like from the cell, and the answers to a
  list of queries put to the engine one after the other.
\<close>

definition answer :: "('db, 'tbl) engine \<Rightarrow> 'db \<Rightarrow> string \<Rightarrow> pyerr + 'tbl val" where
  "answer eng db q =
     (case eng db q of
        Inl e \<Rightarrow> Inl (DatabaseError (failed_on q e))
      | Inr (db', t) \<Rightarrow> Inr (VFrame t))"

fun replay :: "('db, 'tbl) engine \<Rightarrow> 'db \<Rightarrow> string list \<Rightarrow> (pyerr + 'tbl val) list" where
  "replay eng db [] = []"
| "replay eng db (q # qs) =
     answer eng db q #
       replay eng (case eng db q of Inl e \<Rightarrow> db | Inr (db', t) \<Rightarrow> db') qs"

text \<open>
  The engine's side of the read-only claim: a statement that is read-only by its text
  leaves the database as it was. Theorems that need it say so.
\<close>

definition keeps_database :: "('db, 'tbl) engine \<Rightarrow> bool" where
  "keeps_database eng \<longleftrightarrow>
     (\<forall>db q db' t. read_only_sql q \<longrightarrow> eng db q = Inr (db', t) \<longrightarrow> db' = db)"


text \<open>
  Two engines to run the notebook on: one that answers a read-only statement with the
  database it was asked about and wipes the database on anything else, and one that
  rejects every statement.
\<close>

definition echo_engine :: "(nat list, nat list) engine" where
  "echo_engine db q = (if read_only_sql q then Inr (db, db) else Inr ([], []))"


text \<open>
  The kernel is ready for a query once \<^verbatim>\<open>pd\<close> is pandas and \<^verbatim>\<open>conn\<close> is the one open
  handle, on \<^verbatim>\<open>flights.db\<close>. In such a state a query cell does what \<open>submit\<close> says.
\<close>

definition ready :: "('db, 'tbl) world \<Rightarrow> bool" where
  "ready w \<longleftrightarrow>
     env w ''pd'' = Some (VModule ''pandas'') \<and> env w ''conn'' = Some (VConn 0) \<and>
     conns w = [(''flights.db'', True)]"

definition submit :: "('db, 'tbl) engine \<Rightarrow> string \<Rightarrow> ('db, 'tbl) world \<Rightarrow> ('db, 'tbl) world" where
  "submit eng q w =
     (case eng (fs w ''flights.db'') q of
        Inl e \<Rightarrow>
          w\<lparr>out := out w @ [Inl (DatabaseError (failed_on q e))],
            log := log w @ [EvQuery 0 q (Some e)]\<rparr>
      | Inr (db', t) \<Rightarrow>
          w\<lparr>fs := (fs w)(''flights.db'' := db'), out := out w @ [Inr (VFrame t)],
            log := log w @ [EvQuery 0 q None]\<rparr>)"

definition submit_all ::
  "('db, 'tbl) engine \<Rightarrow> string list \<Rightarrow> ('db, 'tbl) world \<Rightarrow> ('db, 'tbl) world" where
  "submit_all eng qs w = foldl (\<lambda>w q. submit eng q w) w qs"

section \<open>The exercise query as a function of the tables\<close>

text \<open>
  The query of cell 19, clause by clause, over the columns it names. The database file
  is not part of the repository, so a row has just these columns. A column value is
  \<^verbatim>\<open>NULL\<close>, a number or a text; comparisons follow SQL's three-valued logic (\<open>None\<close> is
  unknown) and \<^verbatim>\<open>WHERE\<close> and \<^verbatim>\<open>ON\<close> keep a row only when the condition is true.
\<close>

datatype sqlval = Null | IntV int | TextV string

record airline =
  a_id :: sqlval
  a_name :: sqlval

record route =
  r_airline_id :: sqlval
  r_source_id :: sqlval
  r_dest_id :: sqlval

record flights =
  airlines :: "airline list"
  routes :: "route list"

definition sql_eq :: "sqlval \<Rightarrow> sqlval \<Rightarrow> bool option" where
  "sql_eq x y = (if x = Null \<or> y = Null then None else Some (x = y))"

definition sql_or :: "bool option \<Rightarrow> bool option \<Rightarrow> bool option" where
  "sql_or p q =
     (if p = Some True \<or> q = Some True then Some True
      else if p = Some False \<and> q = Some False then Some False
      else None)"

definition sql_in :: "sqlval \<Rightarrow> sqlval list \<Rightarrow> bool option" where
  "sql_in x xs =
     (if xs = [] then Some False
      else if x = Null then None
      else if x \<in> set xs then Some True
      else if Null \<in> set xs then None
      else Some False)"

text \<open>\<^verbatim>\<open>DISTINCT\<close> keeps the first of equal rows; two \<^verbatim>\<open>NULL\<close>s count as equal.\<close>

definition sql_distinct :: "'a list \<Rightarrow> 'a list" where
  "sql_distinct xs = rev (remdups (rev xs))"

text \<open>
  \<^verbatim>\<open>GROUP BY source_id\<close> with \<^verbatim>\<open>COUNT()\<close>: one group per value, with the number of its
  rows. \<^verbatim>\<open>ORDER BY COUNT() DESC\<close> sorts the groups by falling count; SQL leaves the
  order of groups with equal counts to the engine, so the order in which the engine
  hands the groups to the sort is the parameter \<open>tie\<close>. \<^verbatim>\<open>LIMIT 3\<close> takes the first three.
\<close>

definition group_count :: "sqlval list \<Rightarrow> (sqlval \<times> nat) list" where
  "group_count ks = map (\<lambda>k. (k, count_list ks k)) (sql_distinct ks)"

definition top_3_airports ::
  "((sqlval \<times> nat) list \<Rightarrow> (sqlval \<times> nat) list) \<Rightarrow> flights \<Rightarrow> sqlval list" where
  "top_3_airports tie db =
     take 3 (map fst (sort_key (\<lambda>g. - int (snd g)) (tie (group_count (map r_source_id (routes db))))))"

definition exercise_query ::
  "((sqlval \<times> nat) list \<Rightarrow> (sqlval \<times> nat) list) \<Rightarrow> flights \<Rightarrow> sqlval list" where
  "exercise_query tie db =
     sql_distinct
       (map (\<lambda>ar. a_name (fst ar))
         (filter
           (\<lambda>ar. sql_or (sql_in (r_source_id (snd ar)) (top_3_airports tie db))
                         (sql_in (r_dest_id (snd ar)) (top_3_airports tie db)) = Some True)
           (filter (\<lambda>ar. sql_eq (a_id (fst ar)) (r_airline_id (snd ar)) = Some True)
             (List.product (airlines db) (routes db)))))"

text \<open>
  A small database to run the query on: airport 10 has two outbound routes, airports
  20, 30 and 40 one each, so the third place of the ranking is tied.
\<close>

definition sample_flights :: flights where
  "sample_flights =
     \<lparr>airlines =
        [\<lparr>a_id = IntV 1, a_name = TextV ''Alpha''\<rparr>,
         \<lparr>a_id = IntV 2, a_name = TextV ''Beta''\<rparr>,
         \<lparr>a_id = IntV 3, a_name = TextV ''Gamma''\<rparr>],
      routes =
        [\<lparr>r_airline_id = IntV 1, r_source_id = IntV 10, r_dest_id = IntV 20\<rparr>,
         \<lparr>r_airline_id = IntV 1, r_source_id = IntV 10, r_dest_id = IntV 30\<rparr>,
         \<lparr>r_airline_id = IntV 2, r_source_id = IntV 20, r_dest_id = IntV 10\<rparr>,
         \<lparr>r_airline_id = IntV 1, r_source_id = IntV 30, r_dest_id = IntV 10\<rparr>,
         \<lparr>r_airline_id = IntV 3, r_source_id = IntV 40, r_dest_id = IntV 50\<rparr>]\<rparr>"

section \<open>Facts about the run\<close>

lemma run_append: "run eng (cs @ ds) w = run eng ds (run eng cs w)"
  by (induction cs arbitrary: w) simp_all

lemma split_notebook: "notebook = setup_cells @ query_cells"
  by (simp add: setup_cells_def query_cells_def)

lemma query_cells_eq:
  "query_cells =
     [Markdown, cell7, Markdown, cell9, Markdown, cell11, Markdown, cell13, Markdown, cell15,
      Markdown, cell17, Markdown, cell19, Markdown, Markdown, Markdown, Markdown, Markdown,
      Markdown, Markdown, Markdown, Markdown, Markdown, Markdown, Markdown, Markdown,
      Markdown, Markdown, Markdown]"
  by (simp add: query_cells_def notebook_def)

lemma setup_cells_eq: "setup_cells = [Markdown, Markdown, Markdown, cell3, Markdown, cell5]"
  by (simp add: setup_cells_def notebook_def)

lemma query_cell_cases:
  assumes "c \<in> set query_cells"
  shows "c = Markdown \<or> c = cell19 \<or>
         (\<exists>q \<in> set notebook_queries. c = Code [ExprStmt (read_sql_call (Str q))])"
  using assms
  by (auto simp: query_cells_eq notebook_queries_def cell7_def cell9_def cell11_def
      cell13_def cell15_def cell17_def)

lemma notebook_cell_cases:
  assumes "c \<in> set notebook"
  shows "c = Markdown \<or> c = cell3 \<or> c = cell5 \<or> c \<in> set query_cells"
  using assms by (auto simp: split_notebook setup_cells_eq)

subsection \<open>The setup cells\<close>

lemma setup_run:
  "run eng setup_cells (fresh files) =
     \<lparr>fs = files, conns = [(''flights.db'', True)],
      env = [''pd'' \<mapsto> VModule ''pandas'', ''sqlite3'' \<mapsto> VModule ''sqlite3'',
             ''conn'' \<mapsto> VConn 0],
      out = [], log = [EvConnect ''flights.db'' 0]\<rparr>"
  by (simp add: setup_cells_eq fresh_def cell3_def cell5_def get_attr_def do_connect_def)

lemma setup_ready: "ready (run eng setup_cells (fresh files))"
  by (simp add: setup_run ready_def)

subsection \<open>A query cell in a ready kernel\<close>

lemma literal_cell:
  "ready w \<Longrightarrow>
     exec_cell eng (Code [ExprStmt (read_sql_call (Str q))]) w =
       (map_sum id Some (answer eng (fs w ''flights.db'') q), submit eng q w)"
  by (auto simp: ready_def read_sql_call_def get_attr_def do_read_sql_def submit_def answer_def
      split: sum.splits prod.splits)

lemma cell19_as_literal:
  "exec_cell eng cell19 w =
     exec_cell eng (Code [ExprStmt (read_sql_call (Str query_cell19))])
       (w\<lparr>env := (env w)(''query'' \<mapsto> VStr query_cell19)\<rparr>)"
  by (simp add: cell19_def read_sql_call_def split: option.splits sum.splits)

lemma submit_ready: "ready w \<Longrightarrow> ready (submit eng q w)"
  by (auto simp: ready_def submit_def split: sum.splits)

lemma submit_env: "env (submit eng q w) = env w"
  by (auto simp: submit_def split: sum.splits)

lemma submit_env_update: "submit eng q (w\<lparr>env := e\<rparr>) = (submit eng q w)\<lparr>env := e\<rparr>"
  by (auto simp: submit_def split: sum.splits)

lemma submit_log:
  "log (submit eng q w) =
     log w @ [EvQuery 0 q (case eng (fs w ''flights.db'') q of Inl e \<Rightarrow> Some e | Inr r \<Rightarrow> None)]"
  by (auto simp: submit_def split: sum.splits)

lemma submit_out: "out (submit eng q w) = out w @ [answer eng (fs w ''flights.db'') q]"
  by (auto simp: submit_def answer_def split: sum.splits)

lemma submit_db:
  "fs (submit eng q w) ''flights.db'' =
     (case eng (fs w ''flights.db'') q of Inl e \<Rightarrow> fs w ''flights.db'' | Inr (db', t) \<Rightarrow> db')"
  by (auto simp: submit_def split: sum.splits)

lemma ready_env_query:
  "ready w \<Longrightarrow> ready w' \<Longrightarrow> ready (w'\<lparr>env := (env w)(''query'' \<mapsto> v)\<rparr>)"
  by (simp add: ready_def)

lemma query_cell_ready:
  assumes "ready w" and "c \<in> set query_cells"
  shows "ready (snd (exec_cell eng c w))"
  using query_cell_cases[OF assms(2)] assms(1)
  by (auto simp del: exec_cell.simps
      simp: exec_cell.simps(1) cell19_as_literal literal_cell submit_ready ready_env_query)

lemma run_ready:
  "ready w \<Longrightarrow> set cs \<subseteq> set query_cells \<Longrightarrow> ready (run eng cs w)"
  by (induction cs arbitrary: w) (simp_all add: query_cell_ready)

subsection \<open>The whole run\<close>

lemma submit_all_simps:
  "submit_all eng [] w = w"
  "submit_all eng (q # qs) w = submit_all eng qs (submit eng q w)"
  by (simp_all add: submit_all_def)

lemma run_queries:
  assumes "ready w"
  shows "run eng query_cells w =
     (submit_all eng notebook_queries w)\<lparr>env := (env w)(''query'' \<mapsto> VStr query_cell19)\<rparr>"
proof -
  have r: "ready (submit eng query_cell17 (submit eng query_cell15 (submit eng query_cell13
      (submit eng query_cell11 (submit eng query_cell9 (submit eng query_cell7 w))))))"
    by (intro submit_ready assms)
  show ?thesis
    using assms r
    by (simp del: exec_cell.simps add: exec_cell.simps(1) query_cells_eq cell7_def cell9_def cell11_def cell13_def
        cell15_def cell17_def literal_cell submit_ready cell19_as_literal ready_env_query
        notebook_queries_def submit_all_simps submit_env submit_env_update)
qed

lemma connects_of_append: "connects_of (xs @ ys) = connects_of xs @ connects_of ys"
  by (induction xs rule: connects_of.induct) simp_all

lemma queries_of_append: "queries_of (xs @ ys) = queries_of xs @ queries_of ys"
  by (induction xs rule: queries_of.induct) simp_all

lemma submit_all_queries:
  "queries_of (log (submit_all eng qs w)) = queries_of (log w) @ map (Pair 0) qs"
  by (induction qs arbitrary: w) (simp_all add: submit_all_simps submit_log queries_of_append)

lemma submit_all_connects: "connects_of (log (submit_all eng qs w)) = connects_of (log w)"
  by (induction qs arbitrary: w) (simp_all add: submit_all_simps submit_log connects_of_append)

lemma submit_all_out:
  "out (submit_all eng qs w) = out w @ replay eng (fs w ''flights.db'') qs"
  by (induction qs arbitrary: w)
    (auto simp: submit_all_simps submit_out submit_db split: sum.splits)

lemma whole_run:
  "run eng notebook (fresh files) =
     (submit_all eng notebook_queries (run eng setup_cells (fresh files)))
       \<lparr>env := (env (run eng setup_cells (fresh files)))(''query'' \<mapsto> VStr query_cell19)\<rparr>"
  by (simp only: split_notebook run_append run_queries[OF setup_ready])

lemma whole_run_queries:
  "queries_of (log (run eng notebook (fresh files))) = map (Pair 0) notebook_queries"
  by (simp add: whole_run submit_all_queries setup_run)

lemma whole_run_connects:
  "connects_of (log (run eng notebook (fresh files))) = [(''flights.db'', 0)]"
  by (simp add: whole_run submit_all_connects setup_run)

lemma whole_run_out:
  "out (run eng notebook (fresh files)) = replay eng (files ''flights.db'') notebook_queries"
  by (simp add: whole_run submit_all_out setup_run)

subsection \<open>A cell in any kernel state\<close>

lemma eval_read_sql:
  "eval_expr eng (read_sql_call (Str q)) w =
     (case env w ''pd'' of
        None \<Rightarrow> (Inl (NameError ''pd''), w)
      | Some (VModule m) \<Rightarrow>
          (if m = ''pandas'' then
             (case env w ''conn'' of
                None \<Rightarrow> (Inl (NameError ''conn''), w)
              | Some (VConn h) \<Rightarrow> do_read_sql eng q h w
              | Some c \<Rightarrow> (Inl TypeError, w))
           else (Inl (AttributeError ''read_sql''), w))
      | Some v \<Rightarrow> (Inl (AttributeError ''read_sql''), w))"
  by (simp add: read_sql_call_def get_attr_def split: option.splits val.splits)

lemma expr_cell:
  "exec_cell eng (Code [ExprStmt e]) w =
     (case eval_expr eng e w of
        (Inl err, w1) \<Rightarrow> (Inl err, w1\<lparr>out := out w1 @ [Inl err]\<rparr>)
      | (Inr VNone, w1) \<Rightarrow> (Inr None, w1)
      | (Inr v, w1) \<Rightarrow> (Inr (Some v), w1\<lparr>out := out w1 @ [Inr v]\<rparr>))"
  by (simp split: prod.splits sum.splits val.splits)

lemma literal_cell_fs:
  assumes "keeps_database eng" and "read_only_sql q"
  shows "fs (snd (exec_cell eng (Code [ExprStmt (read_sql_call (Str q))]) w)) = fs w"
proof -
  have same: "db' = db" if "eng db q = Inr (db', t)" for db db' t
    using assms that unfolding keeps_database_def by blast
  show ?thesis
    by (auto simp del: exec_cell.simps simp: expr_cell eval_read_sql do_read_sql_def
        split: option.splits val.splits sum.splits dest: same)
qed


lemma cell3_any:
  "exec_cell eng cell3 w =
     (Inr None,
      w\<lparr>env := (env w)(''pd'' \<mapsto> VModule ''pandas'', ''sqlite3'' \<mapsto> VModule ''sqlite3'')\<rparr>)"
  by (simp add: cell3_def)

lemma cell5_fs: "fs (snd (exec_cell eng cell5 w)) = fs w"
  by (simp add: cell5_def get_attr_def do_connect_def split: option.splits val.splits)


lemma read_only_queries: "list_all read_only_sql notebook_queries"
  by code_simp

lemma query_cell_fs:
  assumes "keeps_database eng" and "c \<in> set query_cells"
  shows "fs (snd (exec_cell eng c w)) = fs w"
proof -
  have ro: "read_only_sql q" if "q \<in> set notebook_queries" for q
    using read_only_queries that by (simp add: list_all_iff)
  consider "c = Markdown" | "c = cell19"
    | q where "q \<in> set notebook_queries" and "c = Code [ExprStmt (read_sql_call (Str q))]"
    using query_cell_cases[OF assms(2)] by blast
  then show ?thesis
  proof cases
    case 1
    then show ?thesis by simp
  next
    case 2
    have "read_only_sql query_cell19"
      by (rule ro) (simp add: notebook_queries_def)
    then show ?thesis
      unfolding 2 cell19_as_literal by (simp only: literal_cell_fs[OF assms(1)]) simp
  next
    case 3
    then show ?thesis
      by (simp only: literal_cell_fs[OF assms(1) ro])
  qed
qed

lemma notebook_cell_fs:
  assumes "keeps_database eng" and "c \<in> set notebook"
  shows "fs (snd (exec_cell eng c w)) = fs w"
proof -
  consider "c = Markdown" | "c = cell3" | "c = cell5" | "c \<in> set query_cells"
    using notebook_cell_cases[OF assms(2)] by blast
  then show ?thesis
  proof cases
    case 1
    then show ?thesis by simp
  next
    case 2
    then show ?thesis by (simp only: cell3_any) simp
  next
    case 3
    then show ?thesis by (simp only: cell5_fs)
  next
    case 4
    then show ?thesis by (rule query_cell_fs[OF assms(1)])
  qed
qed

lemma run_fs:
  "keeps_database eng \<Longrightarrow> set cs \<subseteq> set notebook \<Longrightarrow> fs (run eng cs w) = fs w"
  by (induction cs arbitrary: w) (simp_all add: notebook_cell_fs)

lemma query_cell_same:
  assumes "ready w1" and "ready w2" and "fs w1 = fs w2" and "c \<in> set query_cells"
  shows "fst (exec_cell eng c w1) = fst (exec_cell eng c w2)"
  using query_cell_cases[OF assms(4)] assms(1-3)
  by (auto simp del: exec_cell.simps
      simp: exec_cell.simps(1) cell19_as_literal literal_cell ready_env_query)

lemma query_cells_subset: "set query_cells \<subseteq> set notebook"
  by (simp add: split_notebook)


subsection \<open>The exercise query and the order of tied groups\<close>

text \<open>
  On the sample database the third place of the airport ranking is tied, and the rows
  of the result depend on the order in which the engine takes the tied groups.
\<close>

lemma exercise_query_tie_order:
  "exercise_query id sample_flights = [TextV ''Alpha'', TextV ''Beta'']"
  "exercise_query rev sample_flights = [TextV ''Alpha'', TextV ''Beta'', TextV ''Gamma'']"
  by code_simp+

subsection \<open>Facts read off the cells\<close>

lemmas cell_defs =
  notebook_def cell3_def cell5_def cell7_def cell9_def cell11_def cell13_def cell15_def
  cell17_def cell19_def read_sql_call_def

lemma submitted_are_literals: "submitted_literals notebook = map Some notebook_queries"
  by (simp add: submitted_literals_def cell_defs notebook_queries_def)

lemma read_sql_arguments:
  "map tl (notebook_calls ''read_sql'' notebook) =
     [[Name ''conn''], [Name ''conn''], [Name ''conn''], [Name ''conn''], [Name ''conn''],
      [Name ''conn''], [Name ''conn'']]"
  by (simp add: notebook_calls_def cell_defs)

lemma connect_calls: "notebook_calls ''connect'' notebook = [[Str ''flights.db'']]"
  by (simp add: notebook_calls_def cell_defs)

lemma close_calls: "notebook_calls ''close'' notebook = []"
  by (simp add: notebook_calls_def cell_defs)


lemma results_only_shown: "list_all only_shown (concat (map cell_stmts notebook))"
  by (simp add: cell_defs)

lemma notebook_bindings:
  "bindings 0 notebook = [(''pd'', 3), (''sqlite3'', 3), (''conn'', 5), (''query'', 19)]"
  by (simp add: cell_defs)

lemma notebook_flows:
  "flows 0 [] notebook =
     [(''sqlite3'', 3, 5), (''pd'', 3, 7), (''conn'', 5, 7), (''pd'', 3, 9), (''conn'', 5, 9),
      (''pd'', 3, 11), (''conn'', 5, 11), (''pd'', 3, 13), (''conn'', 5, 13), (''pd'', 3, 15),
      (''conn'', 5, 15), (''pd'', 3, 17), (''conn'', 5, 17), (''pd'', 3, 19), (''conn'', 5, 19)]"
  by (simp add: cell_defs stmt_uses_def)

lemma keeps_echo: "keeps_database echo_engine"
  by (auto simp: keeps_database_def echo_engine_def split: if_splits)



lemma cell_membership:
  "cell7 \<in> set notebook" "cell11 \<in> set query_cells" "set [cell19, cell7] \<subseteq> set query_cells"
  "cell19 \<in> set notebook"
  by (simp_all add: notebook_def query_cells_eq)

section \<open>The claims\<close>

text \<open>
  C1. Every query the notebook executes is a literal string handed to the engine
  unchanged. For every engine and every database: the texts the run hands to the
  engine are the seven literals, in order; what the cells show is what came back for
  them (the engine's table, or the library's error for the engine's), nothing else;
  each query argument is a literal or a name bound to
  a literal just before in the same cell; and \<^verbatim>\<open>read_sql\<close> gets the text and the
  connection, no parameters.
\<close>

theorem queries_are_literals:
  "queries_of (log (run eng notebook (fresh files))) = map (Pair 0) notebook_queries \<and>
   out (run eng notebook (fresh files)) = replay eng (files ''flights.db'') notebook_queries \<and>
   submitted_literals notebook = map Some notebook_queries \<and>
   map tl (notebook_calls ''read_sql'' notebook) =
     [[Name ''conn''], [Name ''conn''], [Name ''conn''], [Name ''conn''], [Name ''conn''],
      [Name ''conn''], [Name ''conn'']]"
  using whole_run_queries[of eng files] whole_run_out[of eng files] submitted_are_literals
    read_sql_arguments
  by (intro conjI)



text \<open>
  C3. The connection is opened exactly once, on \<^verbatim>\<open>flights.db\<close>, and every query uses
  that handle. In the run's log there is one connect, of \<^verbatim>\<open>flights.db\<close>, giving handle
  0, and each of the seven queries goes through handle 0; in the cells there is one call
  of \<^verbatim>\<open>connect\<close>, every \<^verbatim>\<open>read_sql\<close> is given the name \<^verbatim>\<open>conn\<close>, and \<^verbatim>\<open>conn\<close> is bound
  once, in cell 5.
\<close>

theorem one_connection:
  "connects_of (log (run eng notebook (fresh files))) = [(''flights.db'', 0)] \<and>
   map fst (queries_of (log (run eng notebook (fresh files)))) = [0, 0, 0, 0, 0, 0, 0] \<and>
   notebook_calls ''connect'' notebook = [[Str ''flights.db'']] \<and>
   map tl (notebook_calls ''read_sql'' notebook) =
     [[Name ''conn''], [Name ''conn''], [Name ''conn''], [Name ''conn''], [Name ''conn''],
      [Name ''conn''], [Name ''conn'']] \<and>
   filter (\<lambda>b. fst b = ''conn'') (bindings 0 notebook) = [(''conn'', 5)]"
  by (simp add: whole_run_connects whole_run_queries connect_calls read_sql_arguments
      notebook_bindings notebook_queries_def comp_def)




text \<open>
  C6, as the code has it. Every common table expression of the executed queries is
  named in the query that follows its \<^verbatim>\<open>WITH\<close> clause: \<^verbatim>\<open>top_5_countries\<close> (cell 17) once,
  \<^verbatim>\<open>top_3_airports\<close> (cell 19) twice. The other five queries define none.
\<close>

theorem cte_reference_counts:
  "map (\<lambda>q. cte_refs (lex_sql q)) notebook_queries =
     [[], [], [], [], [], [(''top_5_countries'', 1)], [(''top_3_airports'', 2)]]"
  by code_simp

text \<open>
  C6 as stated (every expression is named exactly once) fails at the exercise cell: its
  query names \<^verbatim>\<open>top_3_airports\<close> twice, once for \<^verbatim>\<open>source_id\<close> and once for \<^verbatim>\<open>dest_id\<close>.
\<close>

theorem cte_referenced_twice:
  "query_cell19 \<in> set notebook_queries \<and>
   cte_refs (lex_sql query_cell19) = [(''top_3_airports'', 2)]"
proof -
  have "cte_refs (lex_sql query_cell19) = [(''top_3_airports'', 2)]"
    by code_simp
  then show ?thesis by (simp add: notebook_queries_def)
qed

text \<open>
  C7, as the code has it. The bindings made in one cell and read in a later one are the
  connection handle \<^verbatim>\<open>conn\<close> (cell 5, read by the seven query cells) and the module names
  \<^verbatim>\<open>pd\<close> and \<^verbatim>\<open>sqlite3\<close> of the import cell (cell 3). Each name is bound once; \<^verbatim>\<open>query\<close> is
  bound in cell 19 and read there only.
\<close>

theorem cross_cell_bindings:
  "flows 0 [] notebook =
     [(''sqlite3'', 3, 5), (''pd'', 3, 7), (''conn'', 5, 7), (''pd'', 3, 9), (''conn'', 5, 9),
      (''pd'', 3, 11), (''conn'', 5, 11), (''pd'', 3, 13), (''conn'', 5, 13), (''pd'', 3, 15),
      (''conn'', 5, 15), (''pd'', 3, 17), (''conn'', 5, 17), (''pd'', 3, 19), (''conn'', 5, 19)] \<and>
   bindings 0 notebook = [(''pd'', 3), (''sqlite3'', 3), (''conn'', 5), (''query'', 19)]"
  using notebook_flows notebook_bindings by (intro conjI)

text \<open>
  C7 as stated (no binding but the connection handle goes from one cell to a later one)
  fails at the import cell: \<^verbatim>\<open>pd\<close> is bound in cell 3 and read in cell 7.
\<close>

theorem import_binding_crosses_cells:
  "(''pd'', 3, 7) \<in> set (flows 0 [] notebook) \<and> ''pd'' \<noteq> ''conn''"
  by (simp add: notebook_flows)

text \<open>
  C8. The query executions are independent. No statement binds or passes on the table
  a query returned; and with an engine that leaves the database alone on read-only
  statements, what a query cell shows after the setup cells is the same whichever query
  cells ran before it, in whatever order and however often.
\<close>

theorem queries_independent:
  assumes "keeps_database eng" and "set prior \<subseteq> set query_cells" and "c \<in> set query_cells"
  shows "fst (exec_cell eng c (run eng prior (run eng setup_cells (fresh files)))) =
           fst (exec_cell eng c (run eng setup_cells (fresh files))) \<and>
         list_all only_shown (concat (map cell_stmts notebook))"
proof -
  let ?w = "run eng setup_cells (fresh files)"
  have "ready (run eng prior ?w)"
    by (rule run_ready[OF setup_ready assms(2)])
  moreover have "fs (run eng prior ?w) = fs ?w"
    using assms(2) query_cells_subset by (intro run_fs[OF assms(1)]) blast
  ultimately have "fst (exec_cell eng c (run eng prior ?w)) = fst (exec_cell eng c ?w)"
    using setup_ready assms(3) by (intro query_cell_same)
  then show ?thesis using results_only_shown by simp
qed

theorem queries_independent_witness:
  "fst (exec_cell echo_engine cell11
      (run echo_engine [cell19, cell7] (run echo_engine setup_cells (fresh (\<lambda>p. [1, 2, 3]))))) =
     Inr (Some (VFrame [1, 2, 3]))"
proof -
  let ?w = "run echo_engine setup_cells (fresh (\<lambda>p. [1, 2, 3])) :: (nat list, nat list) world"
  have ro: "read_only_sql query_cell11"
    using read_only_queries by (simp add: notebook_queries_def)
  have db: "fs ?w ''flights.db'' = [1, 2, 3]"
    by (simp add: setup_run)
  have "exec_cell echo_engine cell11 ?w =
      (map_sum id Some (answer echo_engine (fs ?w ''flights.db'') query_cell11),
       submit echo_engine query_cell11 ?w)"
    unfolding cell11_def by (rule literal_cell[OF setup_ready])
  then have "fst (exec_cell echo_engine cell11 ?w) = Inr (Some (VFrame [1, 2, 3]))"
    using ro db by (simp add: answer_def echo_engine_def del: exec_cell.simps)
  then show ?thesis
    using queries_independent[OF keeps_echo cell_membership(3) cell_membership(2),
        of "\<lambda>p. [1, 2, 3]"]
    by simp
qed

text \<open>
  C9. The connection is never closed. After the connect cell (the first six cells), at
  every later point of the run, on any engine, the connection table holds the one handle
  on \<^verbatim>\<open>flights.db\<close>, open, and \<^verbatim>\<open>conn\<close> is that handle; no cell calls \<^verbatim>\<open>close\<close>.
\<close>

theorem connection_stays_open:
  assumes "6 \<le> n"
  shows "conns (run eng (take n notebook) (fresh files)) = [(''flights.db'', True)] \<and>
         env (run eng (take n notebook) (fresh files)) ''conn'' = Some (VConn 0) \<and>
         notebook_calls ''close'' notebook = []"
proof -
  have "take n notebook = take 6 notebook @ take (n - 6) (drop 6 notebook)"
    using assms take_add[of 6 "n - 6" notebook] by simp
  then have "run eng (take n notebook) (fresh files) =
      run eng (take (n - 6) query_cells) (run eng setup_cells (fresh files))"
    by (simp add: run_append setup_cells_def query_cells_def)
  moreover have "ready (run eng (take (n - 6) query_cells) (run eng setup_cells (fresh files)))"
    by (rule run_ready[OF setup_ready set_take_subset])
  ultimately show ?thesis
    using close_calls by (simp add: ready_def)
qed

theorem connection_stays_open_witness:
  "conns (run echo_engine (take 36 notebook) (fresh (\<lambda>p. [1, 2, 3]))) = [(''flights.db'', True)] \<and>
   env (run echo_engine (take 36 notebook) (fresh (\<lambda>p. [1, 2, 3]))) ''conn'' = Some (VConn 0)"
  using connection_stays_open[of 36 echo_engine "\<lambda>p. [1, 2, 3]"] by simp

text \<open>
  C10. The result of the exercise query has no duplicate rows: whatever the tables hold
  and however the engine orders tied groups, each airline name is in the output at most
  once.
\<close>

theorem exercise_query_distinct: "distinct (exercise_query tie db)"
  by (simp add: exercise_query_def sql_distinct_def)

theorem exercise_query_distinct_witness:
  "distinct (exercise_query id sample_flights) \<and>
   exercise_query id sample_flights = [TextV ''Alpha'', TextV ''Beta'']"
proof -
  have "exercise_query id sample_flights = [TextV ''Alpha'', TextV ''Beta'']"
    by code_simp
  then show ?thesis using exercise_query_distinct[of id sample_flights] by simp
qed

end
